theory Spec2Isabelle
  imports Complex_Main
begin

section \<open>The pose-tracking pipeline of myonites\<close>

text \<open>
  The development follows three source units: the skeleton drawing utility
  (\<^verbatim>\<open>drawLandmarks.ts\<close>), the MediaPipe estimator class
  \<^verbatim>\<open>MediaPipePoseEstimator\<close> and the prototype screen
  (\<^verbatim>\<open>PosePrototypeScreen.tsx\<close>) with the camera service it drives.
  JavaScript numbers are read as real numbers; pixel dimensions of canvas and video
  elements, which the DOM declares as unsigned integers, are natural numbers.
  A thrown JavaScript value is a value of type \<open>thrown\<close>; a function that can throw
  returns a sum whose left injection is the thrown value.
\<close>

subsection \<open>Shared pose types\<close>

text \<open>The keys of \<^verbatim>\<open>LANDMARK_INDEX\<close> and the index each one names.\<close>

datatype LandmarkName =
    NOSE | LEFT_EYE_INNER | LEFT_EYE | LEFT_EYE_OUTER
  | RIGHT_EYE_INNER | RIGHT_EYE | RIGHT_EYE_OUTER
  | LEFT_EAR | RIGHT_EAR | MOUTH_LEFT | MOUTH_RIGHT
  | LEFT_SHOULDER | RIGHT_SHOULDER | LEFT_ELBOW | RIGHT_ELBOW
  | LEFT_WRIST | RIGHT_WRIST | LEFT_PINKY | RIGHT_PINKY
  | LEFT_INDEX | RIGHT_INDEX | LEFT_THUMB | RIGHT_THUMB
  | LEFT_HIP | RIGHT_HIP | LEFT_KNEE | RIGHT_KNEE
  | LEFT_ANKLE | RIGHT_ANKLE | LEFT_HEEL | RIGHT_HEEL
  | LEFT_FOOT_INDEX | RIGHT_FOOT_INDEX

fun LANDMARK_INDEX :: "LandmarkName \<Rightarrow> nat" where
  "LANDMARK_INDEX NOSE = 0"
| "LANDMARK_INDEX LEFT_EYE_INNER = 1"
| "LANDMARK_INDEX LEFT_EYE = 2"
| "LANDMARK_INDEX LEFT_EYE_OUTER = 3"
| "LANDMARK_INDEX RIGHT_EYE_INNER = 4"
| "LANDMARK_INDEX RIGHT_EYE = 5"
| "LANDMARK_INDEX RIGHT_EYE_OUTER = 6"
| "LANDMARK_INDEX LEFT_EAR = 7"
| "LANDMARK_INDEX RIGHT_EAR = 8"
| "LANDMARK_INDEX MOUTH_LEFT = 9"
| "LANDMARK_INDEX MOUTH_RIGHT = 10"
| "LANDMARK_INDEX LEFT_SHOULDER = 11"
| "LANDMARK_INDEX RIGHT_SHOULDER = 12"
| "LANDMARK_INDEX LEFT_ELBOW = 13"
| "LANDMARK_INDEX RIGHT_ELBOW = 14"
| "LANDMARK_INDEX LEFT_WRIST = 15"
| "LANDMARK_INDEX RIGHT_WRIST = 16"
| "LANDMARK_INDEX LEFT_PINKY = 17"
| "LANDMARK_INDEX RIGHT_PINKY = 18"
| "LANDMARK_INDEX LEFT_INDEX = 19"
| "LANDMARK_INDEX RIGHT_INDEX = 20"
| "LANDMARK_INDEX LEFT_THUMB = 21"
| "LANDMARK_INDEX RIGHT_THUMB = 22"
| "LANDMARK_INDEX LEFT_HIP = 23"
| "LANDMARK_INDEX RIGHT_HIP = 24"
| "LANDMARK_INDEX LEFT_KNEE = 25"
| "LANDMARK_INDEX RIGHT_KNEE = 26"
| "LANDMARK_INDEX LEFT_ANKLE = 27"
| "LANDMARK_INDEX RIGHT_ANKLE = 28"
| "LANDMARK_INDEX LEFT_HEEL = 29"
| "LANDMARK_INDEX RIGHT_HEEL = 30"
| "LANDMARK_INDEX LEFT_FOOT_INDEX = 31"
| "LANDMARK_INDEX RIGHT_FOOT_INDEX = 32"

text \<open>Reading a JavaScript array at an index: \<open>None\<close> is \<^verbatim>\<open>undefined\<close>.\<close>

definition arrayAt :: "'a list \<Rightarrow> nat \<Rightarrow> 'a option" where
  "arrayAt xs i = (if i < length xs then Some (xs ! i) else None)"

subsection \<open>The skeleton drawing utility\<close>

record DrawConfig =
  landmarkRadius :: real
  connectionLineWidth :: real
  highConfidenceColor :: string
  mediumConfidenceColor :: string
  lowConfidenceColor :: string
  connectionColor :: string
  visibilityThreshold :: real

definition DEFAULT_DRAW_CONFIG :: DrawConfig where
  "DEFAULT_DRAW_CONFIG =
     \<lparr> landmarkRadius = 6,
       connectionLineWidth = 3,
       highConfidenceColor = ''#22c55e'',
       mediumConfidenceColor = ''#eab308'',
       lowConfidenceColor = ''#ef4444'',
       connectionColor = ''rgba(255, 255, 255, 0.6)'',
       visibilityThreshold = 0.3 \<rparr>"

text \<open>
  \<^verbatim>\<open>Partial<DrawConfig>\<close>: every key may be absent. \<open>overrideConfig d c\<close> is the
  object spread \<^verbatim>\<open>{ ...d, ...c }\<close>: a key present in \<open>c\<close> replaces the one of \<open>d\<close>.
\<close>

record PartialDrawConfig =
  landmarkRadius_opt :: "real option"
  connectionLineWidth_opt :: "real option"
  highConfidenceColor_opt :: "string option"
  mediumConfidenceColor_opt :: "string option"
  lowConfidenceColor_opt :: "string option"
  connectionColor_opt :: "string option"
  visibilityThreshold_opt :: "real option"

definition noOverrides :: PartialDrawConfig where
  "noOverrides =
     \<lparr> landmarkRadius_opt = None, connectionLineWidth_opt = None,
       highConfidenceColor_opt = None, mediumConfidenceColor_opt = None,
       lowConfidenceColor_opt = None, connectionColor_opt = None,
       visibilityThreshold_opt = None \<rparr>"

definition keyOr :: "'a \<Rightarrow> 'a option \<Rightarrow> 'a" where
  "keyOr d k = (case k of None \<Rightarrow> d | Some v \<Rightarrow> v)"

definition overrideConfig :: "DrawConfig \<Rightarrow> PartialDrawConfig \<Rightarrow> DrawConfig" where
  "overrideConfig d c =
     \<lparr> landmarkRadius = keyOr (landmarkRadius d) (landmarkRadius_opt c),
       connectionLineWidth = keyOr (connectionLineWidth d) (connectionLineWidth_opt c),
       highConfidenceColor = keyOr (highConfidenceColor d) (highConfidenceColor_opt c),
       mediumConfidenceColor = keyOr (mediumConfidenceColor d) (mediumConfidenceColor_opt c),
       lowConfidenceColor = keyOr (lowConfidenceColor d) (lowConfidenceColor_opt c),
       connectionColor = keyOr (connectionColor d) (connectionColor_opt c),
       visibilityThreshold = keyOr (visibilityThreshold d) (visibilityThreshold_opt c) \<rparr>"

definition SKELETON_CONNECTIONS :: "(nat \<times> nat) list" where
  "SKELETON_CONNECTIONS =
     [ (LANDMARK_INDEX LEFT_SHOULDER, LANDMARK_INDEX RIGHT_SHOULDER),
       (LANDMARK_INDEX LEFT_SHOULDER, LANDMARK_INDEX LEFT_HIP),
       (LANDMARK_INDEX RIGHT_SHOULDER, LANDMARK_INDEX RIGHT_HIP),
       (LANDMARK_INDEX LEFT_HIP, LANDMARK_INDEX RIGHT_HIP),
       (LANDMARK_INDEX LEFT_SHOULDER, LANDMARK_INDEX LEFT_ELBOW),
       (LANDMARK_INDEX LEFT_ELBOW, LANDMARK_INDEX LEFT_WRIST),
       (LANDMARK_INDEX RIGHT_SHOULDER, LANDMARK_INDEX RIGHT_ELBOW),
       (LANDMARK_INDEX RIGHT_ELBOW, LANDMARK_INDEX RIGHT_WRIST),
       (LANDMARK_INDEX LEFT_HIP, LANDMARK_INDEX LEFT_KNEE),
       (LANDMARK_INDEX LEFT_KNEE, LANDMARK_INDEX LEFT_ANKLE),
       (LANDMARK_INDEX RIGHT_HIP, LANDMARK_INDEX RIGHT_KNEE),
       (LANDMARK_INDEX RIGHT_KNEE, LANDMARK_INDEX RIGHT_ANKLE),
       (LANDMARK_INDEX LEFT_ANKLE, LANDMARK_INDEX LEFT_HEEL),
       (LANDMARK_INDEX LEFT_HEEL, LANDMARK_INDEX LEFT_FOOT_INDEX),
       (LANDMARK_INDEX LEFT_ANKLE, LANDMARK_INDEX LEFT_FOOT_INDEX),
       (LANDMARK_INDEX RIGHT_ANKLE, LANDMARK_INDEX RIGHT_HEEL),
       (LANDMARK_INDEX RIGHT_HEEL, LANDMARK_INDEX RIGHT_FOOT_INDEX),
       (LANDMARK_INDEX RIGHT_ANKLE, LANDMARK_INDEX RIGHT_FOOT_INDEX),
       (LANDMARK_INDEX LEFT_EAR, LANDMARK_INDEX LEFT_EYE),
       (LANDMARK_INDEX LEFT_EYE, LANDMARK_INDEX NOSE),
       (LANDMARK_INDEX NOSE, LANDMARK_INDEX RIGHT_EYE),
       (LANDMARK_INDEX RIGHT_EYE, LANDMARK_INDEX RIGHT_EAR) ]"

definition getConfidenceColor :: "real \<Rightarrow> DrawConfig \<Rightarrow> string" where
  "getConfidenceColor v config =
     (if v > 0.7 then highConfidenceColor config
      else if v > 0.4 then mediumConfidenceColor config
      else lowConfidenceColor config)"

text \<open>
  A landmark handed to \<^verbatim>\<open>drawSkeleton\<close>: \<^verbatim>\<open>{ x, y, visibility? }\<close>. The fields
  carry the prefix \<open>lm_\<close>; an absent \<^verbatim>\<open>visibility\<close> is \<open>None\<close>.
\<close>

record DrawnLandmark =
  lm_x :: real
  lm_y :: real
  lm_visibility :: "real option"

definition toCanvasCoords :: "DrawnLandmark \<Rightarrow> real \<Rightarrow> real \<Rightarrow> real \<times> real" where
  "toCanvasCoords landmark canvasWidth canvasHeight =
     (lm_x landmark * canvasWidth, lm_y landmark * canvasHeight)"

text \<open>
  The calls and property assignments a function makes on a
  \<^verbatim>\<open>CanvasRenderingContext2D\<close>, in the order it makes them. The text drawn by
  \<^verbatim>\<open>drawFPS\<close> is the template \<^verbatim>\<open>`${roundedFps} FPS`\<close>, kept as the rounded number.
\<close>

datatype CanvasCall =
    ClearRect real real real real
  | SetStrokeStyle string
  | SetLineWidth real
  | SetLineCap string
  | SetFillStyle string
  | SetFont string
  | BeginPath
  | MoveTo real real
  | LineTo real real
  | Stroke
  | Arc real real real real real
  | Fill
  | Save
  | Restore
  | Scale real real
  | FillRect real real real real
  | FillTextFps int real real

text \<open>
  A canvas element: its pixel size, whether \<^verbatim>\<open>getContext("2d")\<close> answers a
  context for it, and the factor \<open>k\<close> of the CSS transform \<^verbatim>\<open>scaleX(k)\<close> in its style
  (1 when the element has no transform). The screen renders its overlay canvas with
  \<^verbatim>\<open>transform: "scaleX(-1)"\<close>.
\<close>

record Canvas =
  canvas_width :: nat
  canvas_height :: nat
  context2d :: bool
  styleScaleX :: real


text \<open>\<^verbatim>\<open>landmark.visibility ?? 0\<close>\<close>

definition visibilityOrZero :: "DrawnLandmark \<Rightarrow> real" where
  "visibilityOrZero landmark = (case lm_visibility landmark of None \<Rightarrow> 0 | Some v \<Rightarrow> v)"

text \<open>
  One iteration of the loop over \<^verbatim>\<open>SKELETON_CONNECTIONS\<close>: the calls it makes, none
  where the source reaches \<^verbatim>\<open>continue\<close>.
\<close>

definition connectionStep ::
  "DrawConfig \<Rightarrow> real \<Rightarrow> real \<Rightarrow> DrawnLandmark list \<Rightarrow> nat \<times> nat \<Rightarrow> CanvasCall list" where
  "connectionStep finalConfig w h normalizedLandmarks conn =
     (case (arrayAt normalizedLandmarks (fst conn), arrayAt normalizedLandmarks (snd conn)) of
        (Some startLandmark, Some endLandmark) \<Rightarrow>
          (if visibilityOrZero startLandmark < visibilityThreshold finalConfig
              \<or> visibilityOrZero endLandmark < visibilityThreshold finalConfig
           then []
           else (let startPos = toCanvasCoords startLandmark w h;
                     endPos = toCanvasCoords endLandmark w h
                 in [BeginPath, MoveTo (fst startPos) (snd startPos),
                     LineTo (fst endPos) (snd endPos), Stroke]))
      | _ \<Rightarrow> [])"

text \<open>One iteration of the loop over the landmark indices.\<close>

definition landmarkStep ::
  "DrawConfig \<Rightarrow> real \<Rightarrow> real \<Rightarrow> DrawnLandmark option \<Rightarrow> CanvasCall list" where
  "landmarkStep finalConfig w h entry =
     (case entry of
        None \<Rightarrow> []
      | Some landmark \<Rightarrow>
          (let v = visibilityOrZero landmark in
           if v < visibilityThreshold finalConfig then []
           else (let pos = toCanvasCoords landmark w h
                 in [BeginPath,
                     Arc (fst pos) (snd pos) (landmarkRadius finalConfig + 1) 0 (2 * pi),
                     SetFillStyle ''white'', Fill,
                     BeginPath,
                     Arc (fst pos) (snd pos) (landmarkRadius finalConfig) 0 (2 * pi),
                     SetFillStyle (getConfidenceColor v finalConfig), Fill])))"

definition drawSkeleton ::
  "Canvas \<Rightarrow> DrawnLandmark list option \<Rightarrow> PartialDrawConfig \<Rightarrow> CanvasCall list" where
  "drawSkeleton canvas normalizedLandmarks config =
     (let finalConfig = overrideConfig DEFAULT_DRAW_CONFIG config;
          w = real (canvas_width canvas);
          h = real (canvas_height canvas)
      in ClearRect 0 0 w h #
         (case normalizedLandmarks of
            None \<Rightarrow> []
          | Some lms \<Rightarrow>
              if length lms = 0 then []
              else [SetStrokeStyle (connectionColor finalConfig),
                    SetLineWidth (connectionLineWidth finalConfig),
                    SetLineCap ''round'']
                   @ concat (map (connectionStep finalConfig w h lms) SKELETON_CONNECTIONS)
                   @ concat (map (\<lambda>i. landmarkStep finalConfig w h (arrayAt lms i))
                                 [0..<length lms])))"

text \<open>\<^verbatim>\<open>Math.round\<close>: the nearest integer, a half rounding up.\<close>

definition mathRound :: "real \<Rightarrow> int" where
  "mathRound v = \<lfloor>v + 1 / 2\<rfloor>"

definition drawFPS :: "real \<Rightarrow> CanvasCall list" where
  "drawFPS fps =
     (let roundedFps = mathRound fps;
          color = (if roundedFps \<ge> 15 then ''#22c55e''
                   else if roundedFps \<ge> 10 then ''#eab308''
                   else ''#ef4444'')
      in [Save, Scale (- 1) 1,
          SetFillStyle ''rgba(0, 0, 0, 0.5)'', FillRect (- 98) 8 90 32,
          SetFillStyle color, SetFont ''bold 16px monospace'',
          FillTextFps roundedFps (- 90) 30,
          Restore])"

subsection \<open>Thrown values and external effects\<close>

text \<open>
  \<open>ErrorObject m\<close> is an \<^verbatim>\<open>Error\<close> whose message is \<open>m\<close>; \<open>OtherValue s\<close> is any
  other thrown value, \<open>s\<close> being what \<^verbatim>\<open>String(value)\<close> gives for it.
\<close>

datatype thrown = ErrorObject string | OtherValue string

datatype ScreenState = ScreenIdle | ScreenLoading | ScreenRunning | ScreenError

text \<open>
  What the pipeline does to the world outside its own fields, recorded in the order it
  happens: closing the inference engine, stopping a hardware track of the camera stream,
  calls on the video element and the DOM, frame scheduling, calls on the overlay
  canvas, and the calls of the React state setters.
\<close>

datatype Effect =
    LandmarkerClosed
  | TrackStopped nat
  | VideoPaused
  | SrcObjectCleared
  | VideoInserted
  | VideoRemoved
  | AnimationFrameRequested nat
  | AnimationFrameCancelled nat
  | CanvasDraw CanvasCall
  | ScreenStateSet ScreenState
  | ErrorMessageSet string
  | DisplayFpsSet int

subsection \<open>The MediaPipe estimator\<close>

record Landmark =
  l_x :: real
  l_y :: real
  l_z :: real
  l_visibility :: real

record PoseLandmarks =
  pose_landmarks :: "Landmark list"
  pose_timestamp :: real

record NormalizedPoint =
  n_x :: real
  n_y :: real
  n_visibility :: real

record PoseResult =
  worldLandmarks :: PoseLandmarks
  normalizedLandmarks :: "NormalizedPoint list"

text \<open>
  A landmark as the engine reports it, its \<^verbatim>\<open>visibility\<close> possibly absent, and the
  engine's result: per detected pose one array of landmarks, in world space and in
  image space. \<open>None\<close> stands for a missing (\<^verbatim>\<open>undefined\<close>) array.
\<close>

record EngineLandmark =
  e_x :: real
  e_y :: real
  e_z :: real
  e_visibility :: "real option"

record PoseLandmarkerResult =
  result_worldLandmarks :: "EngineLandmark list option list option"
  result_landmarks :: "EngineLandmark list option list option"

record HTMLVideoElement =
  videoWidth :: nat
  videoHeight :: nat
  parentNode :: bool

datatype Delegate = GPU | CPU

record PoseEstimatorConfig =
  delegate :: Delegate
  numPoses :: int
  minDetectionConfidence :: real
  minTrackingConfidence :: real
  minPresenceConfidence :: real

definition DEFAULT_CONFIG :: PoseEstimatorConfig where
  "DEFAULT_CONFIG =
     \<lparr> delegate = GPU, numPoses = 1, minDetectionConfidence = 0.5,
       minTrackingConfidence = 0.5, minPresenceConfidence = 0.5 \<rparr>"

record PartialPoseEstimatorConfig =
  delegate_opt :: "Delegate option"
  numPoses_opt :: "int option"
  minDetectionConfidence_opt :: "real option"
  minTrackingConfidence_opt :: "real option"
  minPresenceConfidence_opt :: "real option"

text \<open>
  The engine handle \<^verbatim>\<open>PoseLandmarker\<close>, known by what \<^verbatim>\<open>detectForVideo\<close> answers
  for a frame and a timestamp, a result or a thrown value, and by what \<^verbatim>\<open>close()\<close>
  does: it returns, which is recorded as the effect \<open>LandmarkerClosed\<close>, or it throws.
\<close>

datatype PoseLandmarker =
  PoseLandmarker
    (detectForVideo: "HTMLVideoElement \<Rightarrow> real \<Rightarrow> thrown + PoseLandmarkerResult")
    (close: "thrown + unit")

datatype EstimatorState = Uninitialized | Loading | Ready | Disposed

record MediaPipePoseEstimator =
  landmarker :: "PoseLandmarker option"
  state :: EstimatorState
  config :: PoseEstimatorConfig

text \<open>The constructor.\<close>

definition newEstimator :: "PartialPoseEstimatorConfig \<Rightarrow> MediaPipePoseEstimator" where
  "newEstimator c =
     \<lparr> landmarker = None,
       state = Uninitialized,
       config =
         \<lparr> delegate = keyOr (delegate DEFAULT_CONFIG) (delegate_opt c),
           numPoses = keyOr (numPoses DEFAULT_CONFIG) (numPoses_opt c),
           minDetectionConfidence =
             keyOr (minDetectionConfidence DEFAULT_CONFIG) (minDetectionConfidence_opt c),
           minTrackingConfidence =
             keyOr (minTrackingConfidence DEFAULT_CONFIG) (minTrackingConfidence_opt c),
           minPresenceConfidence =
             keyOr (minPresenceConfidence DEFAULT_CONFIG) (minPresenceConfidence_opt c) \<rparr> \<rparr>"

text \<open>
  The two downloads of \<^verbatim>\<open>init\<close>, each of which may reject:
  \<^verbatim>\<open>FilesetResolver.forVisionTasks\<close> and \<^verbatim>\<open>PoseLandmarker.createFromOptions\<close>.
\<close>

datatype WasmFileset = WasmFileset string

record PoseLandmarkerOptions =
  modelAssetPath :: string
  baseDelegate :: Delegate
  runningMode :: string
  optNumPoses :: int
  minPoseDetectionConfidence :: real
  optMinTrackingConfidence :: real
  minPosePresenceConfidence :: real

record ModelLoader =
  forVisionTasks :: "string \<Rightarrow> thrown + WasmFileset"
  createFromOptions :: "WasmFileset \<Rightarrow> PoseLandmarkerOptions \<Rightarrow> thrown + PoseLandmarker"

text \<open>\<^verbatim>\<open>error instanceof Error ? error.message : String(error)\<close>\<close>

definition thrownText :: "thrown \<Rightarrow> string" where
  "thrownText t = (case t of ErrorObject m \<Rightarrow> m | OtherValue s \<Rightarrow> s)"

text \<open>
  \<^verbatim>\<open>init\<close> in three pieces. \<open>initGuard\<close> is the two guards at its head: \<open>Some r\<close>
  when the call settles at once with \<open>r\<close>, \<open>None\<close> when it goes on. \<open>initLoad\<close> is the
  \<^verbatim>\<open>try\<close>/\<^verbatim>\<open>catch\<close> block, entered with the state already \<open>Loading\<close>. \<open>init\<close>
  is the whole call, given what the downloads answer.
\<close>

definition initGuard :: "MediaPipePoseEstimator \<Rightarrow> (thrown + unit) option" where
  "initGuard e =
     (if state e = Disposed
      then Some (Inl (ErrorObject
             ''Cannot initialize a disposed PoseEstimator. Create a new instance instead.''))
      else if state e = Loading \<or> state e = Ready then Some (Inr ())
      else None)"

definition initFailed :: "thrown \<Rightarrow> MediaPipePoseEstimator \<Rightarrow> (thrown + unit) \<times> MediaPipePoseEstimator" where
  "initFailed err e =
     (Inl (ErrorObject (''Failed to initialize MediaPipe PoseEstimator: '' @ thrownText err)),
      e\<lparr>state := Uninitialized\<rparr>)"

definition landmarkerOptions :: "PoseEstimatorConfig \<Rightarrow> PoseLandmarkerOptions" where
  "landmarkerOptions c =
     \<lparr> modelAssetPath = ''https://storage.googleapis.com/mediapipe-models/pose_landmarker/pose_landmarker_lite/float16/latest/pose_landmarker_lite.task'',
       baseDelegate = delegate c,
       runningMode = ''VIDEO'',
       optNumPoses = numPoses c,
       minPoseDetectionConfidence = minDetectionConfidence c,
       optMinTrackingConfidence = minTrackingConfidence c,
       minPosePresenceConfidence = minPresenceConfidence c \<rparr>"

definition initLoad ::
  "ModelLoader \<Rightarrow> MediaPipePoseEstimator \<Rightarrow> (thrown + unit) \<times> MediaPipePoseEstimator" where
  "initLoad loader e =
     (case forVisionTasks loader ''https://cdn.jsdelivr.net/npm/@mediapipe/tasks-vision@latest/wasm'' of
        Inl err \<Rightarrow> initFailed err e
      | Inr vision \<Rightarrow>
          (case createFromOptions loader vision (landmarkerOptions (config e)) of
             Inl err \<Rightarrow> initFailed err e
           | Inr lm \<Rightarrow> (Inr (), e\<lparr>landmarker := Some lm, state := Ready\<rparr>)))"

definition init ::
  "ModelLoader \<Rightarrow> MediaPipePoseEstimator \<Rightarrow> (thrown + unit) \<times> MediaPipePoseEstimator" where
  "init loader e =
     (case initGuard e of
        Some r \<Rightarrow> (r, e)
      | None \<Rightarrow> initLoad loader (e\<lparr>state := Loading\<rparr>))"

text \<open>
  The test on the engine's result in \<^verbatim>\<open>detectPose\<close>, one disjunct for each of the
  source's eight: the array is missing, has no pose, its first pose is missing, or its
  first pose has no landmark.
\<close>

definition noPose :: "EngineLandmark list option list option \<Rightarrow> bool" where
  "noPose a =
     (case a of
        None \<Rightarrow> True
      | Some poses \<Rightarrow>
          length poses = 0 \<or>
          (case arrayAt poses 0 of
             None \<Rightarrow> True
           | Some None \<Rightarrow> True
           | Some (Some lms) \<Rightarrow> length lms = 0))"

text \<open>\<^verbatim>\<open>a[0]\<close> once the test has passed.\<close>

definition firstPose :: "EngineLandmark list option list option \<Rightarrow> EngineLandmark list" where
  "firstPose a =
     (case a of
        Some (Some lms # _) \<Rightarrow> lms
      | _ \<Rightarrow> [])"

definition toLandmark :: "EngineLandmark \<Rightarrow> Landmark" where
  "toLandmark lm =
     \<lparr> l_x = e_x lm, l_y = e_y lm, l_z = e_z lm,
       l_visibility = keyOr 0 (e_visibility lm) \<rparr>"

definition toNormalizedPoint :: "EngineLandmark \<Rightarrow> NormalizedPoint" where
  "toNormalizedPoint lm =
     \<lparr> n_x = e_x lm, n_y = e_y lm, n_visibility = keyOr 0 (e_visibility lm) \<rparr>"

definition detectPose ::
  "MediaPipePoseEstimator \<Rightarrow> HTMLVideoElement \<Rightarrow> real \<Rightarrow> thrown + PoseResult option" where
  "detectPose e videoElement timestampMs =
     (if state e \<noteq> Ready \<or> landmarker e = None then Inr None
      else if videoWidth videoElement = 0 \<or> videoHeight videoElement = 0 then Inr None
      else
        (case detectForVideo (the (landmarker e)) videoElement timestampMs of
           Inl err \<Rightarrow> Inl err
         | Inr result \<Rightarrow>
             if noPose (result_worldLandmarks result) \<or> noPose (result_landmarks result)
             then Inr None
             else Inr (Some
               \<lparr> worldLandmarks =
                   \<lparr> pose_landmarks = map toLandmark (firstPose (result_worldLandmarks result)),
                     pose_timestamp = timestampMs \<rparr>,
                 normalizedLandmarks =
                   map toNormalizedPoint (firstPose (result_landmarks result)) \<rparr>)))"

definition isReady :: "MediaPipePoseEstimator \<Rightarrow> bool" where
  "isReady e = (state e = Ready)"

definition getState :: "MediaPipePoseEstimator \<Rightarrow> EstimatorState" where
  "getState e = state e"

text \<open>
  \<^verbatim>\<open>dispose\<close>: how the call ends, the effects it had, and the estimator it leaves.
  The engine's \<^verbatim>\<open>close()\<close> is called, outside any \<^verbatim>\<open>try\<close>, before the two
  assignments: when it throws, the call ends there and neither assignment is made.
\<close>

definition dispose ::
  "MediaPipePoseEstimator \<Rightarrow> (thrown + unit) \<times> Effect list \<times> MediaPipePoseEstimator" where
  "dispose e =
     (case landmarker e of
        Some lm \<Rightarrow>
          (case close lm of
             Inl err \<Rightarrow> (Inl err, [], e)
           | Inr _ \<Rightarrow> (Inr (), [LandmarkerClosed], e\<lparr>landmarker := None, state := Disposed\<rparr>))
      | None \<Rightarrow> (Inr (), [], e\<lparr>state := Disposed\<rparr>))"

subsection \<open>The camera service\<close>

datatype FacingMode = FacingUser | FacingEnvironment

record CameraConfig =
  cam_width :: nat
  cam_height :: nat
  facingMode :: FacingMode

definition DEFAULT_CAMERA_CONFIG :: CameraConfig where
  "DEFAULT_CAMERA_CONFIG = \<lparr> cam_width = 640, cam_height = 480, facingMode = FacingUser \<rparr>"

record PartialCameraConfig =
  cam_width_opt :: "nat option"
  cam_height_opt :: "nat option"
  facingMode_opt :: "FacingMode option"

text \<open>The constraints object handed to \<^verbatim>\<open>getUserMedia\<close>.\<close>

record MediaConstraints =
  idealWidth :: nat
  idealHeight :: nat
  constraintFacingMode :: FacingMode
  audio :: bool

text \<open>
  A granted \<^verbatim>\<open>MediaStream\<close>: the number of its hardware tracks and the size of the
  frames it delivers, which the video element shows once \<^verbatim>\<open>loadeddata\<close> has fired.
\<close>

record MediaStream =
  trackCount :: nat
  frameWidth :: nat
  frameHeight :: nat

text \<open>
  \<^verbatim>\<open>CameraStream\<close>. Its \<^verbatim>\<open>stop\<close> member is a closure over the two other members;
  it is the function \<open>stop\<close> below, applied to the record.
\<close>

record CameraStream =
  videoElement :: HTMLVideoElement
  stream :: MediaStream

definition stop :: "CameraStream \<Rightarrow> Effect list" where
  "stop camera =
     map TrackStopped [0..<trackCount (stream camera)] @ [VideoPaused, SrcObjectCleared]"

definition startCamera ::
  "(MediaConstraints \<Rightarrow> thrown + MediaStream) \<Rightarrow> PartialCameraConfig \<Rightarrow> thrown + CameraStream" where
  "startCamera getUserMedia c =
     (let finalConfig =
            \<lparr> cam_width = keyOr (cam_width DEFAULT_CAMERA_CONFIG) (cam_width_opt c),
              cam_height = keyOr (cam_height DEFAULT_CAMERA_CONFIG) (cam_height_opt c),
              facingMode = keyOr (facingMode DEFAULT_CAMERA_CONFIG) (facingMode_opt c) \<rparr>
      in case getUserMedia
                \<lparr> idealWidth = cam_width finalConfig,
                  idealHeight = cam_height finalConfig,
                  constraintFacingMode = facingMode finalConfig,
                  audio = False \<rparr> of
           Inl err \<Rightarrow> Inl err
         | Inr granted \<Rightarrow>
             Inr \<lparr> videoElement =
                     \<lparr> videoWidth = frameWidth granted,
                       videoHeight = frameHeight granted,
                       parentNode = False \<rparr>,
                   stream = granted \<rparr>)"

subsection \<open>The prototype screen\<close>

text \<open>
  The refs and the React state of \<^verbatim>\<open>PosePrototypeScreen\<close>, the counter from which
  \<^verbatim>\<open>requestAnimationFrame\<close> draws its ids, and the effects so far, oldest first.
  \<open>stopCameraRef\<close> holds the camera whose \<^verbatim>\<open>stop\<close> closure the ref holds;
  \<open>containerRef\<close> tells whether the container element is mounted.
\<close>

record Screen =
  videoRef :: "HTMLVideoElement option"
  canvasRef :: "Canvas option"
  containerRef :: bool
  estimatorRef :: "MediaPipePoseEstimator option"
  stopCameraRef :: "CameraStream option"
  animationFrameRef :: "nat option"
  lastFrameTimeRef :: real
  fpsRef :: real
  screenState :: ScreenState
  errorMessage :: string
  displayFps :: int
  nextFrameId :: nat
  effects :: "Effect list"

text \<open>What the browser answers during a start sequence.\<close>

record Browser =
  cameraSupported :: bool
  getUserMedia :: "MediaConstraints \<Rightarrow> thrown + MediaStream"
  modelLoader :: ModelLoader
  performanceNow :: real

definition emit :: "Effect list \<Rightarrow> Screen \<Rightarrow> Screen" where
  "emit es s = s\<lparr>effects := effects s @ es\<rparr>"

definition setScreenState :: "ScreenState \<Rightarrow> Screen \<Rightarrow> Screen" where
  "setScreenState v s = emit [ScreenStateSet v] (s\<lparr>screenState := v\<rparr>)"

definition setErrorMessage :: "string \<Rightarrow> Screen \<Rightarrow> Screen" where
  "setErrorMessage v s = emit [ErrorMessageSet v] (s\<lparr>errorMessage := v\<rparr>)"

definition setDisplayFps :: "int \<Rightarrow> Screen \<Rightarrow> Screen" where
  "setDisplayFps v s = emit [DisplayFpsSet v] (s\<lparr>displayFps := v\<rparr>)"

text \<open>
  The five steps of \<^verbatim>\<open>cleanup\<close>, in the order of the source. The second can end
  with a thrown value, that of \<^verbatim>\<open>dispose\<close>; the ref then still holds the estimator
  and the later steps are not run.
\<close>

definition cancelFrame :: "Screen \<Rightarrow> Screen" where
  "cancelFrame s =
     (case animationFrameRef s of
        Some n \<Rightarrow> emit [AnimationFrameCancelled n] (s\<lparr>animationFrameRef := None\<rparr>)
      | None \<Rightarrow> s)"

definition disposeEstimator :: "Screen \<Rightarrow> (thrown + unit) \<times> Screen" where
  "disposeEstimator s =
     (case estimatorRef s of
        Some e \<Rightarrow>
          (case dispose e of
             (Inl err, es, e') \<Rightarrow> (Inl err, emit es (s\<lparr>estimatorRef := Some e'\<rparr>))
           | (Inr _, es, e') \<Rightarrow> (Inr (), emit es (s\<lparr>estimatorRef := None\<rparr>)))
      | None \<Rightarrow> (Inr (), s))"

definition stopCamera :: "Screen \<Rightarrow> Screen" where
  "stopCamera s =
     (case stopCameraRef s of
        Some camera \<Rightarrow> emit (stop camera) (s\<lparr>stopCameraRef := None\<rparr>)
      | None \<Rightarrow> s)"

definition removeVideo :: "Screen \<Rightarrow> Screen" where
  "removeVideo s =
     (case videoRef s of
        Some video \<Rightarrow>
          if parentNode video then emit [VideoRemoved] (s\<lparr>videoRef := None\<rparr>) else s
      | None \<Rightarrow> s)"

definition clearCanvas :: "Screen \<Rightarrow> Screen" where
  "clearCanvas s =
     (case canvasRef s of
        Some canvas \<Rightarrow>
          if context2d canvas
          then emit [CanvasDraw (ClearRect 0 0 (real (canvas_width canvas))
                                              (real (canvas_height canvas)))] s
          else s
      | None \<Rightarrow> s)"

definition cleanup :: "Screen \<Rightarrow> (thrown + unit) \<times> Screen" where
  "cleanup s =
     (case disposeEstimator (cancelFrame s) of
        (Inl err, s') \<Rightarrow> (Inl err, s')
      | (Inr _, s') \<Rightarrow> (Inr (), clearCanvas (removeVideo (stopCamera s'))))"

text \<open>\<^verbatim>\<open>animationFrameRef.current = requestAnimationFrame(processFrame)\<close>\<close>

definition scheduleFrame :: "Screen \<Rightarrow> Screen" where
  "scheduleFrame s =
     emit [AnimationFrameRequested (nextFrameId s)]
       (s\<lparr>animationFrameRef := Some (nextFrameId s), nextFrameId := Suc (nextFrameId s)\<rparr>)"

definition startProcessingLoop :: "Screen \<Rightarrow> Screen" where
  "startProcessingLoop s = scheduleFrame s"

text \<open>Steps 4 and 5 of the start sequence: attaching the video and sizing the canvas.\<close>

definition attachVideo :: "Screen \<Rightarrow> Screen" where
  "attachVideo s =
     (case videoRef s of
        Some video \<Rightarrow>
          if containerRef s
          then emit [VideoInserted] (s\<lparr>videoRef := Some (video\<lparr>parentNode := True\<rparr>)\<rparr>)
          else s
      | None \<Rightarrow> s)"

definition sizeCanvas :: "Screen \<Rightarrow> Screen" where
  "sizeCanvas s =
     (case (canvasRef s, videoRef s) of
        (Some canvas, Some video) \<Rightarrow>
          s\<lparr>canvasRef := Some (canvas\<lparr>canvas_width := videoWidth video,
                                      canvas_height := videoHeight video\<rparr>)\<rparr>
      | _ \<Rightarrow> s)"

definition sessionEstimatorConfig :: PartialPoseEstimatorConfig where
  "sessionEstimatorConfig =
     \<lparr> delegate_opt = Some GPU, numPoses_opt = Some 1,
       minDetectionConfidence_opt = Some 0.5, minTrackingConfidence_opt = Some 0.5,
       minPresenceConfidence_opt = Some 0.5 \<rparr>"

definition sessionCameraConfig :: PartialCameraConfig where
  "sessionCameraConfig =
     \<lparr> cam_width_opt = Some 640, cam_height_opt = Some 480, facingMode_opt = None \<rparr>"

text \<open>
  The \<^verbatim>\<open>try\<close> block of \<^verbatim>\<open>startSession\<close>: the thrown value and the screen as it
  stands when a step fails, or the screen with the loop started. In \<open>startSession\<close>
  itself a value thrown by \<^verbatim>\<open>cleanup\<close> inside the \<^verbatim>\<open>catch\<close> block leaves the
  function: the two setters after it are not called.
\<close>

definition startSessionBody :: "Browser \<Rightarrow> Screen \<Rightarrow> (thrown + unit) \<times> Screen" where
  "startSessionBody browser s =
     (if \<not> cameraSupported browser
      then (Inl (ErrorObject (''Camera is not supported in this browser. '' @
                   ''Make sure you are using HTTPS (or localhost) and a modern browser.'')), s)
      else
        (case startCamera (getUserMedia browser) sessionCameraConfig of
           Inl err \<Rightarrow> (Inl err, s)
         | Inr camera \<Rightarrow>
             (let s1 = s\<lparr>videoRef := Some (videoElement camera), stopCameraRef := Some camera\<rparr>
              in case init (modelLoader browser) (newEstimator sessionEstimatorConfig) of
                   (Inl err, _) \<Rightarrow> (Inl err, s1)
                 | (Inr _, estimator) \<Rightarrow>
                     (let s2 = s1\<lparr>estimatorRef := Some estimator\<rparr>;
                          s3 = sizeCanvas (attachVideo s2);
                          s4 = setScreenState ScreenRunning s3;
                          s5 = s4\<lparr>lastFrameTimeRef := performanceNow browser\<rparr>
                      in (Inr (), startProcessingLoop s5)))))"

definition startSession :: "Browser \<Rightarrow> Screen \<Rightarrow> (thrown + unit) \<times> Screen" where
  "startSession browser s =
     (case startSessionBody browser (setErrorMessage [] (setScreenState ScreenLoading s)) of
        (Inr _, s') \<Rightarrow> (Inr (), s')
      | (Inl err, s') \<Rightarrow>
          (case cleanup s' of
             (Inl err', s'') \<Rightarrow> (Inl err', s'')
           | (Inr _, s'') \<Rightarrow>
               (let message = (case err of ErrorObject m \<Rightarrow> m
                                          | OtherValue _ \<Rightarrow> ''An unknown error occurred'')
                in (Inr (), setScreenState ScreenError (setErrorMessage message s'')))))"

text \<open>
  \<^verbatim>\<open>PoseResult.normalizedLandmarks\<close> read at the parameter type of
  \<^verbatim>\<open>drawSkeleton\<close>: the visibility is present.
\<close>

definition toDrawn :: "NormalizedPoint \<Rightarrow> DrawnLandmark" where
  "toDrawn p = \<lparr> lm_x = n_x p, lm_y = n_y p, lm_visibility = Some (n_visibility p) \<rparr>"

text \<open>
  The frame-rate update of \<^verbatim>\<open>processFrame\<close>: the time of the last frame becomes the
  timestamp, and the smoothed rate is updated when time has advanced.
\<close>

definition updateFps :: "real \<Rightarrow> Screen \<Rightarrow> Screen" where
  "updateFps timestamp s =
     (let deltaMs = timestamp - lastFrameTimeRef s;
          s1 = s\<lparr>lastFrameTimeRef := timestamp\<rparr>
      in if deltaMs > 0
         then (let instantFps = 1000 / deltaMs
               in s1\<lparr>fpsRef := fpsRef s1 * 0.9 + instantFps * 0.1\<rparr>)
         else s1)"

text \<open>
  One frame callback. A value thrown by \<^verbatim>\<open>detectPose\<close> leaves the callback; the
  refs are then as they were.
\<close>

definition processFrame :: "real \<Rightarrow> Screen \<Rightarrow> thrown + Screen" where
  "processFrame timestamp s =
     (case (estimatorRef s, videoRef s, canvasRef s) of
        (Some estimator, Some video, Some canvas) \<Rightarrow>
          if \<not> context2d canvas then Inr s
          else
            (case detectPose estimator video timestamp of
               Inl err \<Rightarrow> Inl err
             | Inr poseResult \<Rightarrow>
                 (let drawn = (case poseResult of
                                 Some r \<Rightarrow> Some (map toDrawn (normalizedLandmarks r))
                               | None \<Rightarrow> None);
                      s1 = emit (map CanvasDraw (drawSkeleton canvas drawn noOverrides)) s;
                      s2 = updateFps timestamp s1;
                      s3 = emit (map CanvasDraw (drawFPS (fpsRef s2))) s2
                  in Inr (scheduleFrame s3)))
      | _ \<Rightarrow> Inr s)"

text \<open>The Stop button, and the interval that copies the smoothed rate into the state.\<close>

definition stopPressed :: "Screen \<Rightarrow> (thrown + unit) \<times> Screen" where
  "stopPressed s =
     (case cleanup s of
        (Inl err, s') \<Rightarrow> (Inl err, s')
      | (Inr _, s') \<Rightarrow> (Inr (), setDisplayFps 0 (setScreenState ScreenIdle s')))"

definition fpsTick :: "Screen \<Rightarrow> Screen" where
  "fpsTick s = setDisplayFps (mathRound (fpsRef s)) s"

subsection \<open>Observing a call sequence\<close>

text \<open>
  The test suite watches the calls of \<^verbatim>\<open>ctx.arc\<close> and \<^verbatim>\<open>ctx.moveTo\<close>: one
  \<^verbatim>\<open>moveTo\<close> per drawn connection, two \<^verbatim>\<open>arc\<close> calls per drawn point.
\<close>

fun isArc :: "CanvasCall \<Rightarrow> bool" where
  "isArc (Arc _ _ _ _ _) = True"
| "isArc _ = False"

fun isMoveTo :: "CanvasCall \<Rightarrow> bool" where
  "isMoveTo (MoveTo _ _) = True"
| "isMoveTo _ = False"

subsection \<open>Sample inputs\<close>

text \<open>
  The mock context of the drawing tests (640 by 480, no style), a video element
  delivering frames of that size, and a landmark as an engine reports it.
\<close>

definition mockCanvas :: Canvas where
  "mockCanvas =
     \<lparr> canvas_width = 640, canvas_height = 480, context2d = True, styleScaleX = 1 \<rparr>"

definition sampleVideo :: HTMLVideoElement where
  "sampleVideo = \<lparr> videoWidth = 640, videoHeight = 480, parentNode = False \<rparr>"

definition samplePoint :: EngineLandmark where
  "samplePoint = \<lparr> e_x = 0.5, e_y = 0.5, e_z = 0, e_visibility = Some 0.9 \<rparr>"

text \<open>
  An engine that answers every frame with the same result, one whose detection throws,
  both closing normally, and one whose \<^verbatim>\<open>close()\<close> throws.
\<close>

definition engineAnswering :: "PoseLandmarkerResult \<Rightarrow> PoseLandmarker" where
  "engineAnswering r = PoseLandmarker (\<lambda>_ _. Inr r) (Inr ())"

definition engineThrowing :: PoseLandmarker where
  "engineThrowing = PoseLandmarker (\<lambda>_ _. Inl (ErrorObject ''engine failure'')) (Inr ())"


text \<open>The estimator of a session once \<^verbatim>\<open>init\<close> has succeeded with the given engine.\<close>

definition readyEstimator :: "PoseLandmarker \<Rightarrow> MediaPipePoseEstimator" where
  "readyEstimator lm = (newEstimator sessionEstimatorConfig)\<lparr>landmarker := Some lm, state := Ready\<rparr>"

text \<open>A loader whose first download is rejected, and a browser with a one-track camera.\<close>

definition failingLoader :: ModelLoader where
  "failingLoader =
     \<lparr> forVisionTasks = (\<lambda>_. Inl (ErrorObject ''Failed to fetch'')),
       createFromOptions = (\<lambda>_ _. Inl (OtherValue ''not reached'')) \<rparr>"

definition sampleBrowser :: Browser where
  "sampleBrowser =
     \<lparr> cameraSupported = True,
       getUserMedia = (\<lambda>_. Inr \<lparr> trackCount = 1, frameWidth = 640, frameHeight = 480 \<rparr>),
       modelLoader = failingLoader,
       performanceNow = 0 \<rparr>"

text \<open>
  The screen as the component mounts it: every ref at its initial value, the container
  and the overlay canvas, of the default size (300 by 150) and styled with
  \<^verbatim>\<open>scaleX(-1)\<close>, in the DOM.
\<close>

definition mountedScreen :: Screen where
  "mountedScreen =
     \<lparr> videoRef = None,
       canvasRef = Some \<lparr> canvas_width = 300, canvas_height = 150, context2d = True,
                          styleScaleX = - 1 \<rparr>,
       containerRef = True,
       estimatorRef = None,
       stopCameraRef = None,
       animationFrameRef = None,
       lastFrameTimeRef = 0,
       fpsRef = 0,
       screenState = ScreenIdle,
       errorMessage = [],
       displayFps = 0,
       nextFrameId = 1,
       effects = [] \<rparr>"

text \<open>A running screen whose smoothed rate is 30 and whose last frame came at time 0.\<close>

definition runningScreen :: Screen where
  "runningScreen =
     mountedScreen
       \<lparr> videoRef := Some sampleVideo,
         estimatorRef :=
           Some (readyEstimator
                  (engineAnswering \<lparr> result_worldLandmarks = Some [], result_landmarks = Some [] \<rparr>)),
         fpsRef := 30,
         screenState := ScreenRunning \<rparr>"

section \<open>Auxiliary facts\<close>

lemma arrayAt_index_map:
  "map (\<lambda>i. f (arrayAt xs i)) [0..<length xs] = map (\<lambda>x. f (Some x)) xs"
  by (rule nth_equalityI) (simp_all add: arrayAt_def)

lemma count_concat_map:
  "length (filter P (concat (map f xs))) = sum_list (map (\<lambda>x. length (filter P (f x))) xs)"
  by (induction xs) simp_all

lemma sum_list_indicator:
  "sum_list (map (\<lambda>x. if Q x then (k::nat) else 0) xs) = k * length (filter Q xs)"
  by (induction xs) simp_all

lemma landmarkStep_drawn_iff:
  "landmarkStep cfg w h (Some lm) \<noteq> [] \<longleftrightarrow> visibilityThreshold cfg \<le> visibilityOrZero lm"
  by (simp add: landmarkStep_def Let_def)

lemma landmarkStep_arcs:
  "length (filter isArc (landmarkStep cfg w h (Some lm))) =
     (if visibilityThreshold cfg \<le> visibilityOrZero lm then 2 else 0)"
  by (simp add: landmarkStep_def Let_def)

lemma landmarkStep_moves:
  "filter isMoveTo (landmarkStep cfg w h entry) = []"
  by (simp add: landmarkStep_def Let_def split: option.split)

lemma connectionStep_drawn_iff:
  "connectionStep cfg w h lms conn \<noteq> [] \<longleftrightarrow>
     fst conn < length lms \<and> snd conn < length lms
     \<and> visibilityThreshold cfg \<le> visibilityOrZero (lms ! fst conn)
     \<and> visibilityThreshold cfg \<le> visibilityOrZero (lms ! snd conn)"
  by (auto simp add: connectionStep_def arrayAt_def Let_def)

lemma connectionStep_moves:
  "length (filter isMoveTo (connectionStep cfg w h lms conn)) =
     (if fst conn < length lms \<and> snd conn < length lms
         \<and> visibilityThreshold cfg \<le> visibilityOrZero (lms ! fst conn)
         \<and> visibilityThreshold cfg \<le> visibilityOrZero (lms ! snd conn)
      then 1 else 0)"
  by (auto simp add: connectionStep_def arrayAt_def Let_def)

lemma connectionStep_arcs:
  "filter isArc (connectionStep cfg w h lms conn) = []"
  by (simp add: connectionStep_def arrayAt_def Let_def)

text \<open>The loop over the indices visits every landmark of the array once, in order.\<close>

lemma drawSkeleton_nonempty:
  "lms \<noteq> [] \<Longrightarrow>
   drawSkeleton canvas (Some lms) overrides =
     (let cfg = overrideConfig DEFAULT_DRAW_CONFIG overrides;
          w = real (canvas_width canvas); h = real (canvas_height canvas)
      in ClearRect 0 0 w h # SetStrokeStyle (connectionColor cfg) #
         SetLineWidth (connectionLineWidth cfg) # SetLineCap ''round'' #
         concat (map (connectionStep cfg w h lms) SKELETON_CONNECTIONS) @
         concat (map (\<lambda>lm. landmarkStep cfg w h (Some lm)) lms))"
  by (simp add: drawSkeleton_def Let_def arrayAt_index_map)

lemma drawSkeleton_arcs:
  "lms \<noteq> [] \<Longrightarrow>
   length (filter isArc (drawSkeleton canvas (Some lms) overrides)) =
     2 * length (filter (\<lambda>lm. visibilityThreshold (overrideConfig DEFAULT_DRAW_CONFIG overrides)
                                  \<le> visibilityOrZero lm) lms)"
  by (simp add: drawSkeleton_nonempty Let_def count_concat_map
        connectionStep_arcs landmarkStep_arcs sum_list_indicator o_def)

lemma drawSkeleton_moves:
  "lms \<noteq> [] \<Longrightarrow>
   length (filter isMoveTo (drawSkeleton canvas (Some lms) overrides)) =
     length (filter
       (\<lambda>conn. fst conn < length lms \<and> snd conn < length lms
          \<and> visibilityThreshold (overrideConfig DEFAULT_DRAW_CONFIG overrides)
                \<le> visibilityOrZero (lms ! fst conn)
          \<and> visibilityThreshold (overrideConfig DEFAULT_DRAW_CONFIG overrides)
                \<le> visibilityOrZero (lms ! snd conn))
       SKELETON_CONNECTIONS)"
  using sum_list_indicator
    [of "\<lambda>conn. fst conn < length lms \<and> snd conn < length lms
          \<and> visibilityThreshold (overrideConfig DEFAULT_DRAW_CONFIG overrides)
                \<le> visibilityOrZero (lms ! fst conn)
          \<and> visibilityThreshold (overrideConfig DEFAULT_DRAW_CONFIG overrides)
                \<le> visibilityOrZero (lms ! snd conn)" 1 SKELETON_CONNECTIONS]
  by (simp add: drawSkeleton_nonempty Let_def count_concat_map
        connectionStep_moves landmarkStep_moves o_def)

lemmas draw_defs =
  drawSkeleton_def overrideConfig_def DEFAULT_DRAW_CONFIG_def noOverrides_def keyOr_def
  SKELETON_CONNECTIONS_def connectionStep_def landmarkStep_def arrayAt_def
  visibilityOrZero_def toCanvasCoords_def getConfidenceColor_def mockCanvas_def Let_def

text \<open>The test on the engine's result passes exactly for a first pose with a landmark.\<close>

lemma noPose_iff:
  "noPose a \<longleftrightarrow> \<not> (\<exists>l ls rest. a = Some (Some (l # ls) # rest))"
proof (cases a)
  case None
  then show ?thesis by (simp add: noPose_def)
next
  case (Some poses)
  show ?thesis
  proof (cases poses)
    case Nil
    with Some show ?thesis by (simp add: noPose_def)
  next
    case (Cons p ps)
    show ?thesis
    proof (cases p)
      case None
      with Some Cons show ?thesis by (simp add: noPose_def arrayAt_def)
    next
      case inner: (Some lms)
      with Some Cons show ?thesis
        by (cases lms) (simp_all add: noPose_def arrayAt_def)
    qed
  qed
qed

lemma firstPose_shape: "firstPose (Some (Some lms # rest)) = lms"
  by (simp add: firstPose_def)

lemma startCamera_fresh:
  "startCamera g c = Inr camera \<Longrightarrow> \<not> parentNode (videoElement camera)"
  by (auto simp add: startCamera_def Let_def split: sum.splits)

lemma cleanup_effects:
  assumes "case estimatorRef s of Some e \<Rightarrow> fst (dispose e) = Inr () | None \<Rightarrow> True"
  shows "fst (cleanup s) = Inr ()
     \<and> effects (snd (cleanup s)) =
         effects s
         @ (case animationFrameRef s of Some n \<Rightarrow> [AnimationFrameCancelled n] | None \<Rightarrow> [])
         @ (case estimatorRef s of Some e \<Rightarrow> fst (snd (dispose e)) | None \<Rightarrow> [])
         @ (case stopCameraRef s of Some camera \<Rightarrow> stop camera | None \<Rightarrow> [])
         @ (case videoRef s of
              Some video \<Rightarrow> if parentNode video then [VideoRemoved] else []
            | None \<Rightarrow> [])
         @ (case canvasRef s of
              Some canvas \<Rightarrow>
                if context2d canvas
                then [CanvasDraw (ClearRect 0 0 (real (canvas_width canvas))
                                                (real (canvas_height canvas)))]
                else []
            | None \<Rightarrow> [])
     \<and> animationFrameRef (snd (cleanup s)) = None
     \<and> estimatorRef (snd (cleanup s)) = None
     \<and> stopCameraRef (snd (cleanup s)) = None"
proof (cases "estimatorRef s")
  case None
  then show ?thesis
    by (simp add: cleanup_def clearCanvas_def removeVideo_def stopCamera_def
          disposeEstimator_def cancelFrame_def emit_def split: option.splits)
next
  case (Some e)
  with assms have ok: "fst (dispose e) = Inr ()" by simp
  obtain es e' where d: "dispose e = (Inr (), es, e')"
    using ok by (cases "dispose e") auto
  show ?thesis
    using Some d
    by (simp add: cleanup_def clearCanvas_def removeVideo_def stopCamera_def
          disposeEstimator_def cancelFrame_def emit_def split: option.splits)
qed

text \<open>No step of \<^verbatim>\<open>startSession\<close> changes the style of the overlay canvas.\<close>

lemma sizeCanvas_style:
  "canvasRef s = Some canvas \<Longrightarrow>
   \<exists>canvas'. canvasRef (sizeCanvas s) = Some canvas' \<and> styleScaleX canvas' = styleScaleX canvas"
  by (simp add: sizeCanvas_def split: option.splits)

section \<open>The overlay renderer\<close>



text \<open>
  C2. The drawability threshold of \<^verbatim>\<open>drawSkeleton\<close> is an inclusive lower bound. The
  iteration for a landmark draws it exactly when its visibility (0 when absent) is at
  least the threshold; the iteration for a connection draws it exactly when both
  endpoints are in the array and each, on its own, is at least the threshold. So a
  whole call on a non-empty array makes two \<^verbatim>\<open>arc\<close> calls per landmark at or above the
  threshold and one \<^verbatim>\<open>moveTo\<close> per connection whose two endpoints are.
\<close>

theorem drawSkeleton_threshold_inclusive:
  "(landmarkStep cfg w h (Some lm) \<noteq> [] \<longleftrightarrow> visibilityThreshold cfg \<le> visibilityOrZero lm)
   \<and> (connectionStep cfg w h lms conn \<noteq> [] \<longleftrightarrow>
        fst conn < length lms \<and> snd conn < length lms
        \<and> visibilityThreshold cfg \<le> visibilityOrZero (lms ! fst conn)
        \<and> visibilityThreshold cfg \<le> visibilityOrZero (lms ! snd conn))
   \<and> (lms \<noteq> [] \<longrightarrow>
        length (filter isArc (drawSkeleton canvas (Some lms) overrides)) =
          2 * length (filter
                (\<lambda>lm. visibilityThreshold (overrideConfig DEFAULT_DRAW_CONFIG overrides)
                         \<le> visibilityOrZero lm) lms)
        \<and> length (filter isMoveTo (drawSkeleton canvas (Some lms) overrides)) =
            length (filter
              (\<lambda>conn. fst conn < length lms \<and> snd conn < length lms
                 \<and> visibilityThreshold (overrideConfig DEFAULT_DRAW_CONFIG overrides)
                       \<le> visibilityOrZero (lms ! fst conn)
                 \<and> visibilityThreshold (overrideConfig DEFAULT_DRAW_CONFIG overrides)
                       \<le> visibilityOrZero (lms ! snd conn))
              SKELETON_CONNECTIONS))"
  by (intro conjI impI landmarkStep_drawn_iff connectionStep_drawn_iff
        drawSkeleton_arcs drawSkeleton_moves)

text \<open>
  Three landmarks with visibility 0.3, 0.31 and 0.29 under the default configuration:
  the first two are drawn (four \<^verbatim>\<open>arc\<close> calls), the third is not; the connection from
  the left eye (index 2) to the nose (index 0) is skipped for its low endpoint.
\<close>

theorem drawSkeleton_threshold_inclusive_witness:
  "[\<lparr> lm_x = 0.5, lm_y = 0.5, lm_visibility = Some 0.3 \<rparr>,
    \<lparr> lm_x = 0.25, lm_y = 0.5, lm_visibility = Some 0.31 \<rparr>,
    \<lparr> lm_x = 0.75, lm_y = 0.5, lm_visibility = Some 0.29 \<rparr>] \<noteq> []
   \<and> length (filter isArc (drawSkeleton mockCanvas
        (Some [\<lparr> lm_x = 0.5, lm_y = 0.5, lm_visibility = Some 0.3 \<rparr>,
               \<lparr> lm_x = 0.25, lm_y = 0.5, lm_visibility = Some 0.31 \<rparr>,
               \<lparr> lm_x = 0.75, lm_y = 0.5, lm_visibility = Some 0.29 \<rparr>]) noOverrides)) = 4
   \<and> length (filter isMoveTo (drawSkeleton mockCanvas
        (Some [\<lparr> lm_x = 0.5, lm_y = 0.5, lm_visibility = Some 0.3 \<rparr>,
               \<lparr> lm_x = 0.25, lm_y = 0.5, lm_visibility = Some 0.31 \<rparr>,
               \<lparr> lm_x = 0.75, lm_y = 0.5, lm_visibility = Some 0.29 \<rparr>]) noOverrides)) = 0
   \<and> landmarkStep DEFAULT_DRAW_CONFIG 640 480
        (Some \<lparr> lm_x = 0.25, lm_y = 0.5, lm_visibility = Some 0.31 \<rparr>) \<noteq> []"
  using drawSkeleton_threshold_inclusive
    [of DEFAULT_DRAW_CONFIG 640 480 "\<lparr> lm_x = 0.25, lm_y = 0.5, lm_visibility = Some 0.31 \<rparr>"
        "[\<lparr> lm_x = 0.5, lm_y = 0.5, lm_visibility = Some 0.3 \<rparr>,
          \<lparr> lm_x = 0.25, lm_y = 0.5, lm_visibility = Some 0.31 \<rparr>,
          \<lparr> lm_x = 0.75, lm_y = 0.5, lm_visibility = Some 0.29 \<rparr>]"
        "(2, 0)" mockCanvas noOverrides]
  by (simp add: overrideConfig_def DEFAULT_DRAW_CONFIG_def noOverrides_def keyOr_def
        visibilityOrZero_def SKELETON_CONNECTIONS_def)

text \<open>
  A single landmark whose visibility is exactly the default threshold 0.3 is drawn: the
  call issues its two circles.
\<close>

theorem drawSkeleton_threshold_counterexample:
  "visibilityThreshold (overrideConfig DEFAULT_DRAW_CONFIG noOverrides) = 0.3
   \<and> drawSkeleton mockCanvas
       (Some [\<lparr> lm_x = 0.5, lm_y = 0.5, lm_visibility = Some 0.3 \<rparr>]) noOverrides =
     [ClearRect 0 0 640 480,
      SetStrokeStyle ''rgba(255, 255, 255, 0.6)'', SetLineWidth 3, SetLineCap ''round'',
      BeginPath, Arc 320 240 7 0 (2 * pi), SetFillStyle ''white'', Fill,
      BeginPath, Arc 320 240 6 0 (2 * pi), SetFillStyle ''#ef4444'', Fill]"
  by (simp add: draw_defs)

text \<open>
  C9. Every call of \<^verbatim>\<open>drawSkeleton\<close> begins by clearing the whole surface, whatever
  its input; with \<^verbatim>\<open>null\<close> or an empty array for the landmarks the clear is the only
  call it makes.
\<close>

theorem drawSkeleton_clears_first:
  "(\<exists>rest. drawSkeleton canvas lms overrides =
      ClearRect 0 0 (real (canvas_width canvas)) (real (canvas_height canvas)) # rest)
   \<and> drawSkeleton canvas None overrides =
       [ClearRect 0 0 (real (canvas_width canvas)) (real (canvas_height canvas))]
   \<and> drawSkeleton canvas (Some []) overrides =
       [ClearRect 0 0 (real (canvas_width canvas)) (real (canvas_height canvas))]"
  by (simp add: drawSkeleton_def Let_def)

theorem drawSkeleton_clears_first_witness:
  "drawSkeleton mockCanvas None noOverrides = [ClearRect 0 0 640 480]
   \<and> drawSkeleton mockCanvas (Some []) noOverrides = [ClearRect 0 0 640 480]
   \<and> length (filter isArc (drawSkeleton mockCanvas None noOverrides)) = 0
   \<and> length (filter isMoveTo (drawSkeleton mockCanvas None noOverrides)) = 0"
  using drawSkeleton_clears_first [of mockCanvas None noOverrides]
  by (simp add: mockCanvas_def)

text \<open>
  C10. A landmark without a \<^verbatim>\<open>visibility\<close> field counts as visibility 0 in
  \<^verbatim>\<open>drawSkeleton\<close>: under any positive threshold the iteration for the landmark
  draws nothing, and the iteration for a connection that has it as either endpoint
  draws nothing, whatever the other endpoint is.
\<close>

theorem absent_visibility_never_drawn:
  assumes "0 < visibilityThreshold cfg" and "lm_visibility lm = None"
  shows "visibilityOrZero lm = 0
         \<and> landmarkStep cfg w h (Some lm) = []
         \<and> (arrayAt lms (fst conn) = Some lm \<or> arrayAt lms (snd conn) = Some lm
              \<longrightarrow> connectionStep cfg w h lms conn = [])"
proof -
  have zero: "visibilityOrZero lm = 0"
    using assms(2) by (simp add: visibilityOrZero_def)
  then have low: "visibilityOrZero lm < visibilityThreshold cfg"
    using assms(1) by simp
  have point: "landmarkStep cfg w h (Some lm) = []"
    using low by (simp add: landmarkStep_def Let_def)
  have edge: "connectionStep cfg w h lms conn = []"
    if "arrayAt lms (fst conn) = Some lm \<or> arrayAt lms (snd conn) = Some lm"
    using that low by (auto simp add: connectionStep_def split: option.splits)
  from zero point edge show ?thesis by blast
qed

text \<open>
  A nose without visibility beside an inner eye and a left eye at 0.9: the nose gets no
  circle and the connection from the left eye to the nose no line, while the two
  visible landmarks are drawn.
\<close>

theorem absent_visibility_never_drawn_witness:
  "0 < visibilityThreshold DEFAULT_DRAW_CONFIG
   \<and> lm_visibility \<lparr> lm_x = 0.5, lm_y = 0.25, lm_visibility = None \<rparr> = None
   \<and> landmarkStep DEFAULT_DRAW_CONFIG 640 480
        (Some \<lparr> lm_x = 0.5, lm_y = 0.25, lm_visibility = None \<rparr>) = []
   \<and> connectionStep DEFAULT_DRAW_CONFIG 640 480
        [\<lparr> lm_x = 0.5, lm_y = 0.25, lm_visibility = None \<rparr>,
         \<lparr> lm_x = 0.25, lm_y = 0.25, lm_visibility = Some 0.9 \<rparr>,
         \<lparr> lm_x = 0.75, lm_y = 0.25, lm_visibility = Some 0.9 \<rparr>] (2, 0) = []
   \<and> drawSkeleton mockCanvas
        (Some [\<lparr> lm_x = 0.5, lm_y = 0.25, lm_visibility = None \<rparr>,
               \<lparr> lm_x = 0.25, lm_y = 0.25, lm_visibility = Some 0.9 \<rparr>,
               \<lparr> lm_x = 0.75, lm_y = 0.25, lm_visibility = Some 0.9 \<rparr>]) noOverrides =
      [ClearRect 0 0 640 480,
       SetStrokeStyle ''rgba(255, 255, 255, 0.6)'', SetLineWidth 3, SetLineCap ''round'',
       BeginPath, Arc 160 120 7 0 (2 * pi), SetFillStyle ''white'', Fill,
       BeginPath, Arc 160 120 6 0 (2 * pi), SetFillStyle ''#22c55e'', Fill,
       BeginPath, Arc 480 120 7 0 (2 * pi), SetFillStyle ''white'', Fill,
       BeginPath, Arc 480 120 6 0 (2 * pi), SetFillStyle ''#22c55e'', Fill]"
proof -
  have thr: "0 < visibilityThreshold DEFAULT_DRAW_CONFIG"
    by (simp add: DEFAULT_DRAW_CONFIG_def)
  have absent: "lm_visibility \<lparr> lm_x = 0.5, lm_y = 0.25, lm_visibility = None \<rparr> = None"
    by simp
  have whole: "drawSkeleton mockCanvas
        (Some [\<lparr> lm_x = 0.5, lm_y = 0.25, lm_visibility = None \<rparr>,
               \<lparr> lm_x = 0.25, lm_y = 0.25, lm_visibility = Some 0.9 \<rparr>,
               \<lparr> lm_x = 0.75, lm_y = 0.25, lm_visibility = Some 0.9 \<rparr>]) noOverrides =
      [ClearRect 0 0 640 480,
       SetStrokeStyle ''rgba(255, 255, 255, 0.6)'', SetLineWidth 3, SetLineCap ''round'',
       BeginPath, Arc 160 120 7 0 (2 * pi), SetFillStyle ''white'', Fill,
       BeginPath, Arc 160 120 6 0 (2 * pi), SetFillStyle ''#22c55e'', Fill,
       BeginPath, Arc 480 120 7 0 (2 * pi), SetFillStyle ''white'', Fill,
       BeginPath, Arc 480 120 6 0 (2 * pi), SetFillStyle ''#22c55e'', Fill]"
    by (simp add: draw_defs upt_rec)
  show ?thesis
    using absent_visibility_never_drawn
      [OF thr absent, of 640 480
         "[\<lparr> lm_x = 0.5, lm_y = 0.25, lm_visibility = None \<rparr>,
           \<lparr> lm_x = 0.25, lm_y = 0.25, lm_visibility = Some 0.9 \<rparr>,
           \<lparr> lm_x = 0.75, lm_y = 0.25, lm_visibility = Some 0.9 \<rparr>]" "(2, 0)"]
      thr whole
    by (simp add: arrayAt_def)
qed

section \<open>The estimator\<close>

text \<open>
  C3. \<^verbatim>\<open>detectPose\<close> returns the "nothing detected" value \<^verbatim>\<open>null\<close>, and throws
  nothing, whenever the lifecycle state is not \<open>Ready\<close> or the frame has zero width or
  zero height; the engine is not consulted.
\<close>

theorem detectPose_nothing_when_not_ready:
  "state e \<noteq> Ready \<or> videoWidth v = 0 \<or> videoHeight v = 0 \<Longrightarrow> detectPose e v t = Inr None"
  by (auto simp add: detectPose_def)

text \<open>
  A fresh estimator, a disposed one, and a ready estimator whose engine would throw but
  is handed a frame of width 0.
\<close>

theorem detectPose_nothing_when_not_ready_witness:
  "state (newEstimator sessionEstimatorConfig) \<noteq> Ready
   \<and> detectPose (newEstimator sessionEstimatorConfig) sampleVideo 16 = Inr None
   \<and> state (snd (snd (dispose (readyEstimator engineThrowing)))) \<noteq> Ready
   \<and> detectPose (snd (snd (dispose (readyEstimator engineThrowing)))) sampleVideo 16 = Inr None
   \<and> videoWidth (sampleVideo\<lparr>videoWidth := 0\<rparr>) = 0
   \<and> detectPose (readyEstimator engineThrowing) (sampleVideo\<lparr>videoWidth := 0\<rparr>) 16 = Inr None"
proof -
  have a: "state (newEstimator sessionEstimatorConfig) \<noteq> Ready"
    by (simp add: newEstimator_def)
  have b: "state (snd (snd (dispose (readyEstimator engineThrowing)))) \<noteq> Ready"
    by (simp add: dispose_def readyEstimator_def engineThrowing_def)
  have c: "videoWidth (sampleVideo\<lparr>videoWidth := 0\<rparr>) = 0"
    by simp
  show ?thesis
    using a b c
      detectPose_nothing_when_not_ready
        [of "newEstimator sessionEstimatorConfig" sampleVideo 16]
      detectPose_nothing_when_not_ready
        [of "snd (snd (dispose (readyEstimator engineThrowing)))" sampleVideo 16]
      detectPose_nothing_when_not_ready
        [of "readyEstimator engineThrowing" "sampleVideo\<lparr>videoWidth := 0\<rparr>" 16]
    by simp
qed

text \<open>
  C4. The transitions of \<^verbatim>\<open>init\<close>. In state \<open>Loading\<close> or \<open>Ready\<close> the call returns
  and changes nothing. In state \<open>Disposed\<close>, so after any \<^verbatim>\<open>dispose\<close> that returned,
  it throws the error that names the disposal and changes nothing. From \<open>Uninitialized\<close>, when either
  download is rejected with a cause, it throws an initialization error whose message
  ends with the text of the cause, and the state is \<open>Uninitialized\<close> again.
\<close>

theorem init_transitions:
  "(state e = Loading \<or> state e = Ready \<longrightarrow> init loader e = (Inr (), e))
   \<and> (state e = Disposed \<longrightarrow>
        init loader e =
          (Inl (ErrorObject
             ''Cannot initialize a disposed PoseEstimator. Create a new instance instead.''), e))
   \<and> (fst (dispose e) = Inr () \<longrightarrow>
        init loader (snd (snd (dispose e))) =
          (Inl (ErrorObject
             ''Cannot initialize a disposed PoseEstimator. Create a new instance instead.''),
           snd (snd (dispose e))))
   \<and> (state e = Uninitialized \<and>
        (forVisionTasks loader ''https://cdn.jsdelivr.net/npm/@mediapipe/tasks-vision@latest/wasm''
           = Inl cause
         \<or> (\<exists>vision.
              forVisionTasks loader
                ''https://cdn.jsdelivr.net/npm/@mediapipe/tasks-vision@latest/wasm'' = Inr vision
              \<and> createFromOptions loader vision (landmarkerOptions (config e)) = Inl cause))
        \<longrightarrow> init loader e =
              (Inl (ErrorObject
                 (''Failed to initialize MediaPipe PoseEstimator: '' @ thrownText cause)), e)
            \<and> state (snd (init loader e)) = Uninitialized)"
  by (auto simp add: init_def initGuard_def initLoad_def initFailed_def dispose_def
        split: option.splits sum.splits)

text \<open>
  An estimator caught while loading, a disposed one, and a fresh one whose first
  download fails with "Failed to fetch".
\<close>

theorem init_transitions_witness:
  "state ((newEstimator sessionEstimatorConfig)\<lparr>state := Loading\<rparr>) = Loading
   \<and> init failingLoader ((newEstimator sessionEstimatorConfig)\<lparr>state := Loading\<rparr>) =
       (Inr (), (newEstimator sessionEstimatorConfig)\<lparr>state := Loading\<rparr>)
   \<and> fst (dispose (readyEstimator engineThrowing)) = Inr ()
   \<and> state (snd (snd (dispose (readyEstimator engineThrowing)))) = Disposed
   \<and> fst (init failingLoader (snd (snd (dispose (readyEstimator engineThrowing))))) =
       Inl (ErrorObject
             ''Cannot initialize a disposed PoseEstimator. Create a new instance instead.'')
   \<and> state (newEstimator sessionEstimatorConfig) = Uninitialized
   \<and> forVisionTasks failingLoader
        ''https://cdn.jsdelivr.net/npm/@mediapipe/tasks-vision@latest/wasm'' =
       Inl (ErrorObject ''Failed to fetch'')
   \<and> init failingLoader (newEstimator sessionEstimatorConfig) =
       (Inl (ErrorObject ''Failed to initialize MediaPipe PoseEstimator: Failed to fetch''),
        newEstimator sessionEstimatorConfig)"
proof -
  have a: "state ((newEstimator sessionEstimatorConfig)\<lparr>state := Loading\<rparr>) = Loading"
    by simp
  have b: "state (snd (snd (dispose (readyEstimator engineThrowing)))) = Disposed"
    and b': "fst (dispose (readyEstimator engineThrowing)) = Inr ()"
    by (simp_all add: dispose_def readyEstimator_def engineThrowing_def)
  have c: "state (newEstimator sessionEstimatorConfig) = Uninitialized"
    by (simp add: newEstimator_def)
  have d: "forVisionTasks failingLoader
        ''https://cdn.jsdelivr.net/npm/@mediapipe/tasks-vision@latest/wasm'' =
       Inl (ErrorObject ''Failed to fetch'')"
    by (simp add: failingLoader_def)
  show ?thesis
    using a b b' c d
      init_transitions
        [of "(newEstimator sessionEstimatorConfig)\<lparr>state := Loading\<rparr>" failingLoader]
      init_transitions
        [of "snd (snd (dispose (readyEstimator engineThrowing)))" failingLoader]
      init_transitions
        [of "readyEstimator engineThrowing" failingLoader]
      init_transitions
        [of "newEstimator sessionEstimatorConfig" failingLoader "ErrorObject ''Failed to fetch''"]
    by (simp add: thrownText_def)
qed

text \<open>
  C5. In state \<open>Ready\<close>, on a frame of non-zero size for which the engine answers with a
  result, \<^verbatim>\<open>detectPose\<close> returns a detection, built from the first pose of each array,
  when the world-space and the image-space array both hold a first pose with at least
  one landmark; when either array is missing, empty, or holds a missing or empty first
  pose, it returns \<^verbatim>\<open>null\<close>, whatever the other array holds.
\<close>

theorem detectPose_needs_both:
  assumes "state e = Ready" and "landmarker e = Some lm"
    and "videoWidth v \<noteq> 0" and "videoHeight v \<noteq> 0"
    and "detectForVideo lm v t = Inr r"
  shows "(result_worldLandmarks r = Some (Some w # ws) \<and> w \<noteq> []
            \<and> result_landmarks r = Some (Some n # ns) \<and> n \<noteq> []
          \<longrightarrow> detectPose e v t =
                Inr (Some \<lparr> worldLandmarks =
                             \<lparr> pose_landmarks = map toLandmark w, pose_timestamp = t \<rparr>,
                           normalizedLandmarks = map toNormalizedPoint n \<rparr>))
       \<and> ((\<nexists>l ls rest. result_worldLandmarks r = Some (Some (l # ls) # rest))
            \<or> (\<nexists>l ls rest. result_landmarks r = Some (Some (l # ls) # rest))
          \<longrightarrow> detectPose e v t = Inr None)"
proof -
  have step: "detectPose e v t =
     (if noPose (result_worldLandmarks r) \<or> noPose (result_landmarks r) then Inr None
      else Inr (Some \<lparr> worldLandmarks =
                         \<lparr> pose_landmarks = map toLandmark (firstPose (result_worldLandmarks r)),
                           pose_timestamp = t \<rparr>,
                       normalizedLandmarks =
                         map toNormalizedPoint (firstPose (result_landmarks r)) \<rparr>))"
    using assms by (simp add: detectPose_def)
  show ?thesis
    unfolding step noPose_iff
    by (auto simp add: firstPose_shape neq_Nil_conv)
qed

text \<open>
  An engine answering with one landmark in each space gives a detection; with the
  world-space pose populated and the image-space pose empty, or the image-space array
  missing, the call gives \<^verbatim>\<open>null\<close>.
\<close>

theorem detectPose_needs_both_witness:
  "detectPose
     (readyEstimator (engineAnswering
        \<lparr> result_worldLandmarks = Some [Some [samplePoint]],
          result_landmarks = Some [Some [samplePoint]] \<rparr>)) sampleVideo 16 =
     Inr (Some \<lparr> worldLandmarks =
                  \<lparr> pose_landmarks = [\<lparr> l_x = 0.5, l_y = 0.5, l_z = 0, l_visibility = 0.9 \<rparr>],
                    pose_timestamp = 16 \<rparr>,
                normalizedLandmarks = [\<lparr> n_x = 0.5, n_y = 0.5, n_visibility = 0.9 \<rparr>] \<rparr>)
   \<and> detectPose
       (readyEstimator (engineAnswering
          \<lparr> result_worldLandmarks = Some [Some [samplePoint]],
            result_landmarks = Some [Some []] \<rparr>)) sampleVideo 16 = Inr None
   \<and> detectPose
       (readyEstimator (engineAnswering
          \<lparr> result_worldLandmarks = Some [Some [samplePoint]],
            result_landmarks = None \<rparr>)) sampleVideo 16 = Inr None"
proof -
  have ready: "state (readyEstimator (engineAnswering r)) = Ready" for r
    by (simp add: readyEstimator_def)
  have held: "landmarker (readyEstimator (engineAnswering r)) = Some (engineAnswering r)" for r
    by (simp add: readyEstimator_def)
  have wide: "videoWidth sampleVideo \<noteq> 0" and high: "videoHeight sampleVideo \<noteq> 0"
    by (simp_all add: sampleVideo_def)
  have answer: "detectForVideo (engineAnswering r) sampleVideo 16 = Inr r" for r
    by (simp add: engineAnswering_def)
  show ?thesis
    using
      detectPose_needs_both [OF ready held wide high answer,
        of "\<lparr> result_worldLandmarks = Some [Some [samplePoint]],
              result_landmarks = Some [Some [samplePoint]] \<rparr>"
           "[samplePoint]" "[]" "[samplePoint]" "[]"]
      detectPose_needs_both [OF ready held wide high answer,
        of "\<lparr> result_worldLandmarks = Some [Some [samplePoint]],
              result_landmarks = Some [Some []] \<rparr>"]
      detectPose_needs_both [OF ready held wide high answer,
        of "\<lparr> result_worldLandmarks = Some [Some [samplePoint]],
              result_landmarks = None \<rparr>"]
    by (simp add: toLandmark_def toNormalizedPoint_def samplePoint_def keyOr_def)
qed




section \<open>The frame loop controller\<close>

text \<open>
  C6. In a start sequence where the browser supports the camera, the camera is
  acquired, and \<^verbatim>\<open>init\<close> of the new estimator then rejects, the effects of
  \<^verbatim>\<open>startSession\<close> are, in order: the transition to \<open>ScreenLoading\<close> and the reset
  of the message; the cancellation and disposal of whatever an earlier session left (the
  ref to the estimator is empty when a session starts; an estimator found there is
  taken to dispose normally);
  the camera's \<^verbatim>\<open>stop\<close>, which stops every track of the stream; the clearing of the
  canvas; and only then the error message and the transition to \<open>ScreenError\<close>, which
  is the last effect. The ref to the stop function is empty afterwards.
\<close>

theorem startSession_releases_camera_before_error:
  assumes "cameraSupported browser"
    and "startCamera (getUserMedia browser) sessionCameraConfig = Inr camera"
    and "fst (init (modelLoader browser) (newEstimator sessionEstimatorConfig)) = Inl err"
    and "case estimatorRef s of Some e \<Rightarrow> fst (dispose e) = Inr () | None \<Rightarrow> True"
  shows "fst (startSession browser s) = Inr ()
         \<and> effects (snd (startSession browser s)) =
           effects s
           @ [ScreenStateSet ScreenLoading, ErrorMessageSet []]
           @ (case animationFrameRef s of Some n \<Rightarrow> [AnimationFrameCancelled n] | None \<Rightarrow> [])
           @ (case estimatorRef s of Some e \<Rightarrow> fst (snd (dispose e)) | None \<Rightarrow> [])
           @ stop camera
           @ (case canvasRef s of
                Some canvas \<Rightarrow>
                  if context2d canvas
                  then [CanvasDraw (ClearRect 0 0 (real (canvas_width canvas))
                                                  (real (canvas_height canvas)))]
                  else []
              | None \<Rightarrow> [])
           @ [ErrorMessageSet (case err of ErrorObject m \<Rightarrow> m
                                          | OtherValue _ \<Rightarrow> ''An unknown error occurred''),
              ScreenStateSet ScreenError]
         \<and> stop camera =
             map TrackStopped [0..<trackCount (stream camera)] @ [VideoPaused, SrcObjectCleared]
         \<and> stopCameraRef (snd (startSession browser s)) = None
         \<and> screenState (snd (startSession browser s)) = ScreenError"
proof -
  obtain r est where i: "init (modelLoader browser) (newEstimator sessionEstimatorConfig) = (r, est)"
    by (cases "init (modelLoader browser) (newEstimator sessionEstimatorConfig)")
  with assms(3) have r: "r = Inl err" by simp
  let ?s0 = "setErrorMessage [] (setScreenState ScreenLoading s)"
  let ?s1 = "?s0\<lparr>videoRef := Some (videoElement camera), stopCameraRef := Some camera\<rparr>"
  have body: "startSessionBody browser ?s0 = (Inl err, ?s1)"
    using assms(1,2) i r by (simp add: startSessionBody_def Let_def)
  have fresh: "\<not> parentNode (videoElement camera)"
    using assms(2) by (rule startCamera_fresh)
  have left: "case estimatorRef ?s1 of Some e \<Rightarrow> fst (dispose e) = Inr () | None \<Rightarrow> True"
    using assms(4) by (simp add: setScreenState_def setErrorMessage_def emit_def)
  note cl = cleanup_effects [OF left]
  obtain s2 where c: "cleanup ?s1 = (Inr (), s2)"
    using cl by (cases "cleanup ?s1") auto
  have fin: "startSession browser s =
      (Inr (), setScreenState ScreenError
        (setErrorMessage (case err of ErrorObject m \<Rightarrow> m
                                    | OtherValue _ \<Rightarrow> ''An unknown error occurred'') s2))"
    by (simp add: startSession_def body c Let_def)
  from cl [unfolded c] have after:
    "effects s2 =
       effects ?s1
       @ (case animationFrameRef ?s1 of Some n \<Rightarrow> [AnimationFrameCancelled n] | None \<Rightarrow> [])
       @ (case estimatorRef ?s1 of Some e \<Rightarrow> fst (snd (dispose e)) | None \<Rightarrow> [])
       @ (case stopCameraRef ?s1 of Some camera \<Rightarrow> stop camera | None \<Rightarrow> [])
       @ (case videoRef ?s1 of
            Some video \<Rightarrow> if parentNode video then [VideoRemoved] else []
          | None \<Rightarrow> [])
       @ (case canvasRef ?s1 of
            Some canvas \<Rightarrow>
              if context2d canvas
              then [CanvasDraw (ClearRect 0 0 (real (canvas_width canvas))
                                              (real (canvas_height canvas)))]
              else []
          | None \<Rightarrow> [])
     \<and> stopCameraRef s2 = None"
    by simp
  show ?thesis
    unfolding fin
    using fresh after
    by (simp add: setScreenState_def setErrorMessage_def emit_def stop_def)
qed

text \<open>
  The mounted screen, a browser granting a one-track camera, and a loader whose first
  download fails: the track is stopped four effects before the error state is set.
\<close>

theorem startSession_releases_camera_before_error_witness:
  "cameraSupported sampleBrowser
   \<and> startCamera (getUserMedia sampleBrowser) sessionCameraConfig =
       Inr \<lparr> videoElement = sampleVideo,
             stream = \<lparr> trackCount = 1, frameWidth = 640, frameHeight = 480 \<rparr> \<rparr>
   \<and> fst (init (modelLoader sampleBrowser) (newEstimator sessionEstimatorConfig)) =
       Inl (ErrorObject ''Failed to initialize MediaPipe PoseEstimator: Failed to fetch'')
   \<and> estimatorRef mountedScreen = None
   \<and> fst (startSession sampleBrowser mountedScreen) = Inr ()
   \<and> effects (snd (startSession sampleBrowser mountedScreen)) =
       [ScreenStateSet ScreenLoading, ErrorMessageSet [],
        TrackStopped 0, VideoPaused, SrcObjectCleared,
        CanvasDraw (ClearRect 0 0 300 150),
        ErrorMessageSet ''Failed to initialize MediaPipe PoseEstimator: Failed to fetch'',
        ScreenStateSet ScreenError]
   \<and> stopCameraRef (snd (startSession sampleBrowser mountedScreen)) = None
   \<and> screenState (snd (startSession sampleBrowser mountedScreen)) = ScreenError"
proof -
  have supported: "cameraSupported sampleBrowser"
    by (simp add: sampleBrowser_def)
  have acquired: "startCamera (getUserMedia sampleBrowser) sessionCameraConfig =
      Inr \<lparr> videoElement = sampleVideo,
            stream = \<lparr> trackCount = 1, frameWidth = 640, frameHeight = 480 \<rparr> \<rparr>"
    by (simp add: startCamera_def sampleBrowser_def sampleVideo_def Let_def)
  have rejected: "fst (init (modelLoader sampleBrowser) (newEstimator sessionEstimatorConfig)) =
      Inl (ErrorObject ''Failed to initialize MediaPipe PoseEstimator: Failed to fetch'')"
    by (simp add: init_def initGuard_def initLoad_def initFailed_def newEstimator_def
          sampleBrowser_def failingLoader_def thrownText_def)
  have empty: "estimatorRef mountedScreen = None"
    by (simp add: mountedScreen_def)
  then have left:
    "case estimatorRef mountedScreen of Some e \<Rightarrow> fst (dispose e) = Inr () | None \<Rightarrow> True"
    by simp
  show ?thesis
    using supported acquired rejected empty
      startSession_releases_camera_before_error [OF supported acquired rejected left]
    by (simp add: mountedScreen_def stop_def)
qed

text \<open>
  C7. A frame callback that finds its resources and whose detection returns updates
  the smoothed frame rate by exponential smoothing: with \<open>S\<close> the previous value and
  \<open>r = 1000 / delta\<close> the instantaneous rate, \<open>delta\<close> being the milliseconds since
  the previous frame, the new value is \<open>0.9 \<cdot> S + 0.1 \<cdot> r\<close> when \<open>delta\<close> is positive
  and \<open>S\<close> when it is zero or negative. The time of the previous frame becomes the
  timestamp either way.
\<close>

theorem processFrame_fps_smoothing:
  assumes "estimatorRef s = Some e" and "videoRef s = Some v" and "canvasRef s = Some c"
    and "context2d c" and "detectPose e v t = Inr r"
  shows "\<exists>s'. processFrame t s = Inr s'
           \<and> lastFrameTimeRef s' = t
           \<and> fpsRef s' =
               (if t - lastFrameTimeRef s > 0
                then 0.9 * fpsRef s + 0.1 * (1000 / (t - lastFrameTimeRef s))
                else fpsRef s)"
proof -
  have law: "fpsRef s * 0.9 + 1000 / (t - lastFrameTimeRef s) * 0.1 =
             0.9 * fpsRef s + 0.1 * (1000 / (t - lastFrameTimeRef s))"
    by (simp only: mult.commute)
  have "fpsRef (updateFps t s0) =
          (if t - lastFrameTimeRef s0 > 0
           then fpsRef s0 * 0.9 + 1000 / (t - lastFrameTimeRef s0) * 0.1
           else fpsRef s0)
        \<and> lastFrameTimeRef (updateFps t s0) = t" for s0
    by (simp add: updateFps_def Let_def)
  then have upd: "fpsRef (updateFps t (emit es s)) =
          (if t - lastFrameTimeRef s > 0
           then fpsRef s * 0.9 + 1000 / (t - lastFrameTimeRef s) * 0.1
           else fpsRef s)
        \<and> lastFrameTimeRef (updateFps t (emit es s)) = t" for es
    by (simp add: emit_def)
  show ?thesis
    using assms upd
    by (simp only: law [symmetric])
       (simp add: processFrame_def scheduleFrame_def emit_def Let_def del: mult_cancel_left)
qed

text \<open>
  A running screen with smoothed rate 30 and previous frame at time 0: a frame at
  \<open>50 / 3\<close> milliseconds (instantaneous rate 60) gives 33; a frame at time 0 again
  (delta zero) and one at time \<open>- 5\<close> (delta negative) leave 30.
\<close>

theorem processFrame_fps_smoothing_witness:
  "(\<exists>s'. processFrame (50 / 3) runningScreen = Inr s' \<and> fpsRef s' = 33)
   \<and> (\<exists>s'. processFrame 0 runningScreen = Inr s' \<and> fpsRef s' = 30)
   \<and> (\<exists>s'. processFrame (- 5) runningScreen = Inr s' \<and> fpsRef s' = 30)"
proof -
  let ?e = "readyEstimator
              (engineAnswering \<lparr> result_worldLandmarks = Some [], result_landmarks = Some [] \<rparr>)"
  let ?c = "\<lparr> canvas_width = 300, canvas_height = 150, context2d = True,
              styleScaleX = - 1 \<rparr>"
  have est: "estimatorRef runningScreen = Some ?e"
    and vid: "videoRef runningScreen = Some sampleVideo"
    and can: "canvasRef runningScreen = Some ?c"
    and ctx: "context2d ?c"
    by (simp_all add: runningScreen_def mountedScreen_def)
  have det: "detectPose ?e sampleVideo t = Inr None" for t
    by (simp add: detectPose_def readyEstimator_def engineAnswering_def sampleVideo_def
          noPose_def)
  have prev: "lastFrameTimeRef runningScreen = 0" and rate: "fpsRef runningScreen = 30"
    by (simp_all add: runningScreen_def mountedScreen_def)
  show ?thesis
    using processFrame_fps_smoothing [OF est vid can ctx det, of "50 / 3"]
      processFrame_fps_smoothing [OF est vid can ctx det, of 0]
      processFrame_fps_smoothing [OF est vid can ctx det, of "- 5"]
    by (auto simp add: prev rate)
qed


end
